theory Spec2Isabelle
  imports Main
begin

section \<open>The chat composer \<open>TextInput\<close> (TextInput.tsx)\<close>

text \<open>
  The component keeps three reactive cells (\<open>inputValue\<close>, \<open>isSendButtonDisabled\<close>,
  \<open>warningMessage\<close>) and two element references (\<open>inputRef\<close>, \<open>audioRef\<close>). Every
  handler is a function from the component's state to its new state, together with the
  list of calls it makes on its collaborators (host callbacks and browser elements), in
  the order in which the source makes them.

  A JavaScript string is a list of code units and \<open>.length\<close> is the length of that
  list; \<^typ>\<open>string\<close> stands for it. An optional prop (\<open>undefined\<close> when the host
  leaves it out) is an \<^typ>\<open>'a option\<close>. The number props that matter here
  (\<open>maxChars\<close>, \<open>window.innerWidth\<close>) are taken at their integer values. The text
  that the language prints for a number beyond the safe integers is not computed: the
  handlers that print one take it as the parameter \<open>rounded\<close>.
\<close>

subsection \<open>Data\<close>

text \<open>The props the handlers read (lines 9-27); the styling props play no part.\<close>

record props =
  defaultValue :: "string option"
  disabled :: "bool option"
  maxChars :: "int option"
  maxCharsWarningMessage :: "string option"
  autoFocus :: "bool option"
  sendMessageSound :: "bool option"
  sendSoundLocation :: "string option"

text \<open>
  What the handlers read from the text field behind \<open>inputRef\<close>: its
  \<open>selectionStart\<close> (a number or \<open>null\<close>) and the answer of \<open>reportValidity()\<close>.
\<close>

record input_element =
  selectionStart :: "nat option"
  reportValidity :: bool

record component =
  inputValue :: string
  isSendButtonDisabled :: bool
  warningMessage :: string
  inputRef :: "input_element option"
  audioRef :: "string option"

record keyboard_event =
  key :: string
  isComposing :: bool
  keyCode :: nat

text \<open>A file-selection event: its target is the native file input, with its value.\<close>

record file_input =
  target_value :: string

record file_event =
  target :: "file_input option"

text \<open>What \<open>onMount\<close> reads from the page: the \<open>isMobile()\<close> signal and the width.\<close>

record window =
  isMobile :: bool
  innerWidth :: int

text \<open>The calls a handler makes outside the component.\<close>

datatype effect =
    OnSubmit string
  | Play string
  | CallReportValidity
  | SetSelectionRange nat nat
  | Focus
  | HostHandleFileChange file_event

fun is_OnSubmit :: "effect \<Rightarrow> bool" where
  "is_OnSubmit (OnSubmit v) = True"
| "is_OnSubmit e = False"

subsection \<open>Constants and the default warning\<close>

definition defaultSendSound :: string where
  "defaultSendSound =
     ''https://cdn.jsdelivr.net/gh/FlowiseAI/FlowiseChatEmbed@latest/src/assets/send_message.mp3''"

text \<open>The decimal digits of a natural number.\<close>

fun digits :: "nat \<Rightarrow> string" where
  "digits n =
     (if n < 10 then [''0123456789'' ! n]
      else digits (n div 10) @ [''0123456789'' ! (n mod 10)])"

text \<open>
  The text that the template literal of line 46 prints for an integer-valued number. For
  a safe integer (magnitude at most \<open>2^53 - 1 = 9007199254740991\<close>) it is the decimal
  digits, after a minus sign for a negative number. Beyond that the language prints the
  shortest digits that identify the floating-point number, in exponent form from
  \<open>1e21\<close> (\<open>-1e+21\<close> for \<open>-10^21\<close>); that text is the parameter \<open>rounded\<close>.
\<close>

definition number_toString :: "(int \<Rightarrow> string) \<Rightarrow> int \<Rightarrow> string" where
  "number_toString rounded i =
     (if \<bar>i\<bar> \<le> 9007199254740991 then
        (if i < 0 then CHR ''-'' # digits (nat (- i)) else digits (nat i))
      else rounded i)"

definition defaultWarning :: "(int \<Rightarrow> string) \<Rightarrow> int \<Rightarrow> string" where
  "defaultWarning rounded m =
     ''You exceeded the characters limit. Please input less than '' @ number_toString rounded m
       @ '' characters.''"

subsection \<open>Creation (lines 33-40)\<close>

definition TextInput :: "props \<Rightarrow> component" where
  "TextInput p =
     \<lparr> inputValue = (case defaultValue p of None \<Rightarrow> [] | Some d \<Rightarrow> d),
       isSendButtonDisabled = False,
       warningMessage = [],
       inputRef = None,
       audioRef = None \<rparr>"

text \<open>The \<open>ref\<close> callback of the text field (line 147).\<close>

definition setInputRef :: "input_element \<Rightarrow> component \<Rightarrow> component" where
  "setInputRef el s = s\<lparr>inputRef := Some el\<rparr>"

subsection \<open>Handlers\<close>

text \<open>
  Lines 42-53. \<open>props.maxChars && ...\<close> is falsy when the prop is \<open>undefined\<close> and when it
  is 0; \<open>??\<close> replaces only a missing warning message, not an empty one.
\<close>

definition handleInput ::
  "(int \<Rightarrow> string) \<Rightarrow> props \<Rightarrow> string \<Rightarrow> component \<Rightarrow> component" where
  "handleInput rounded p newValue s =
     (let wordCount = int (length newValue) in
      case maxChars p of
        None \<Rightarrow>
          s\<lparr>inputValue := newValue, warningMessage := [], isSendButtonDisabled := False\<rparr>
      | Some m \<Rightarrow>
          if m \<noteq> 0 \<and> wordCount > m then
            s\<lparr>warningMessage :=
                 (case maxCharsWarningMessage p of
                    None \<Rightarrow> defaultWarning rounded m
                  | Some w \<Rightarrow> w),
              isSendButtonDisabled := True\<rparr>
          else
            s\<lparr>inputValue := newValue, warningMessage := [], isSendButtonDisabled := False\<rparr>)"

text \<open>
  Line 55. The conjunction short-circuits: \<open>reportValidity()\<close> is called only when the
  text is not empty and no warning is set; without a field the result is \<open>undefined\<close>,
  which is falsy.
\<close>

definition checkIfInputIsValid :: "component \<Rightarrow> bool \<times> effect list" where
  "checkIfInputIsValid s =
     (if inputValue s \<noteq> [] \<and> warningMessage s = [] then
        (case inputRef s of
           None \<Rightarrow> (False, [])
         | Some el \<Rightarrow> (reportValidity el, [CallReportValidity]))
      else (False, []))"

text \<open>Lines 57-65.\<close>

definition submit :: "props \<Rightarrow> component \<Rightarrow> component \<times> effect list" where
  "submit p s =
     (case checkIfInputIsValid s of
        (True, es) \<Rightarrow>
          (s\<lparr>inputValue := []\<rparr>,
           es @ [OnSubmit (inputValue s)]
              @ (if sendMessageSound p = Some True
                 then (case audioRef s of None \<Rightarrow> [] | Some a \<Rightarrow> [Play a]) else []))
      | (False, es) \<Rightarrow> (s, es))"

text \<open>Lines 67-72.\<close>

definition submitWhenEnter ::
  "props \<Rightarrow> keyboard_event \<Rightarrow> component \<Rightarrow> component \<times> effect list" where
  "submitWhenEnter p e s =
     (let isIMEComposition = (isComposing e \<or> keyCode e = 229) in
      if key e = ''Enter'' \<and> \<not> isIMEComposition \<and> warningMessage s = []
      then submit p s else (s, []))"

text \<open>
  Lines 80-89. \<open>slice\<close> clamps its bounds to the string, as \<^const>\<open>take\<close> and
  \<^const>\<open>drop\<close> do; with no field, or a \<open>null\<close> selection, the cursor position is 0.
\<close>

definition deleteCharacter :: "component \<Rightarrow> component \<times> effect list" where
  "deleteCharacter s =
     (let currentInputValue = inputValue s;
          cursorPosition =
            (case inputRef s of
               None \<Rightarrow> 0
             | Some el \<Rightarrow> (case selectionStart el of None \<Rightarrow> 0 | Some c \<Rightarrow> c))
      in if cursorPosition > 0 then
           (let newValue = take (cursorPosition - 1) currentInputValue
                             @ drop cursorPosition currentInputValue
            in (s\<lparr>inputValue := newValue\<rparr>,
                (case inputRef s of
                   None \<Rightarrow> []
                 | Some el \<Rightarrow> [SetSelectionRange (cursorPosition - 1) (cursorPosition - 1)])))
         else (s, []))"

text \<open>Lines 74-78.\<close>

definition handleKeyPress :: "keyboard_event \<Rightarrow> component \<Rightarrow> component \<times> effect list" where
  "handleKeyPress e s = (if key e = ''Backspace'' then deleteCharacter s else (s, []))"

text \<open>Lines 91-105.\<close>

definition onMount :: "window \<Rightarrow> props \<Rightarrow> component \<Rightarrow> component \<times> effect list" where
  "onMount w p s =
     (let shouldAutoFocus =
            (case autoFocus p of
               Some a \<Rightarrow> a
             | None \<Rightarrow> \<not> isMobile w \<and> innerWidth w > 640)
      in ((if sendMessageSound p = Some True then
             (case sendSoundLocation p of
                None \<Rightarrow> s\<lparr>audioRef := Some defaultSendSound\<rparr>
              | Some l \<Rightarrow>
                  if l \<noteq> [] then s\<lparr>audioRef := Some l\<rparr>
                  else s\<lparr>audioRef := Some defaultSendSound\<rparr>)
           else s),
          (if disabled p \<noteq> Some True \<and> shouldAutoFocus \<and> inputRef s \<noteq> None
           then [Focus] else [])))"

text \<open>
  Lines 111-114. The host's handler receives the event as it arrived; the value of the
  native input is cleared afterwards.
\<close>

definition handleFileChange :: "file_event \<Rightarrow> file_event \<times> effect list" where
  "handleFileChange event =
     ((case target event of
         None \<Rightarrow> event
       | Some t \<Rightarrow> event\<lparr>target := Some (t\<lparr>target_value := []\<rparr>)\<rparr>),
      [HostHandleFileChange event])"

subsection \<open>Concrete configurations\<close>

text \<open>
  A host that sets no optional prop, a valid text field with the cursor at its start, the
  component right after creation with that field bound, and a desktop-sized page.
\<close>

definition props0 :: props where
  "props0 = \<lparr> defaultValue = None, disabled = None, maxChars = None,
      maxCharsWarningMessage = None, autoFocus = None, sendMessageSound = None,
      sendSoundLocation = None \<rparr>"

definition field0 :: input_element where
  "field0 = \<lparr> selectionStart = Some 0, reportValidity = True \<rparr>"

definition component0 :: component where
  "component0 = setInputRef field0 (TextInput props0)"

definition window0 :: window where
  "window0 = \<lparr> isMobile = False, innerWidth = 1024 \<rparr>"

text \<open>
  The limits of the examples are safe integers, whose text is their decimal digits; the
  examples never ask for the text of a larger number, and run with none.
\<close>

definition rounded0 :: "int \<Rightarrow> string" where
  "rounded0 i = []"

definition backspace :: keyboard_event where
  "backspace = \<lparr> key = ''Backspace'', isComposing = False, keyCode = 8 \<rparr>"

section \<open>Properties\<close>

declare digits.simps [simp del]

lemmas fixtures = props0_def field0_def component0_def window0_def backspace_def
  setInputRef_def TextInput_def

subsection \<open>Auxiliary facts\<close>

lemma defaultWarning_nonempty: "defaultWarning rounded m \<noteq> []"
  by (simp add: defaultWarning_def)

lemma defaultWarning_5:
  "defaultWarning rounded 5 = ''You exceeded the characters limit. Please input less than 5 characters.''"
  by (simp add: defaultWarning_def number_toString_def digits.simps)

lemma defaultWarning_minus_1:
  "defaultWarning rounded (- 1) =
     ''You exceeded the characters limit. Please input less than -1 characters.''"
  by (simp add: defaultWarning_def number_toString_def digits.simps)

lemma sound_no_OnSubmit:
  "filter is_OnSubmit (if b then (case x of None \<Rightarrow> [] | Some a \<Rightarrow> [Play a]) else []) = []"
  by (cases b; cases x; simp)

lemma checkIfInputIsValid_False:
  assumes "inputValue s = [] \<or> warningMessage s \<noteq> [] \<or> inputRef s = None
             \<or> (\<exists>el. inputRef s = Some el \<and> \<not> reportValidity el)"
  shows "fst (checkIfInputIsValid s) = False"
    and "filter is_OnSubmit (snd (checkIfInputIsValid s)) = []"
  using assms by (auto simp: checkIfInputIsValid_def split: option.splits)

lemma checkIfInputIsValid_True:
  assumes "inputValue s \<noteq> []" and "warningMessage s = []"
    and "inputRef s = Some el" and "reportValidity el"
  shows "checkIfInputIsValid s = (True, [CallReportValidity])"
  using assms by (simp add: checkIfInputIsValid_def)

lemma submit_valid:
  assumes "inputValue s \<noteq> []" and "warningMessage s = []"
    and "inputRef s = Some el" and "reportValidity el"
  shows "submit p s =
           (s\<lparr>inputValue := []\<rparr>,
            [CallReportValidity, OnSubmit (inputValue s)]
              @ (if sendMessageSound p = Some True
                 then (case audioRef s of None \<Rightarrow> [] | Some a \<Rightarrow> [Play a]) else []))"
  by (simp add: submit_def checkIfInputIsValid_True [OF assms])

lemma onMount_fields:
  "inputValue (fst (onMount w p s)) = inputValue s"
  "warningMessage (fst (onMount w p s)) = warningMessage s"
  "inputRef (fst (onMount w p s)) = inputRef s"
  "isSendButtonDisabled (fst (onMount w p s)) = isSendButtonDisabled s"
  by (simp_all add: onMount_def split: option.split)

subsection \<open>Input handling\<close>

text \<open>
  Claim C1. When the new text is no longer than the configured \<open>maxChars\<close>, or
  \<open>maxChars\<close> is unset, \<open>handleInput\<close> stores the new text, clears the warning and
  enables the send action; nothing else of the component changes.
\<close>

theorem handleInput_within_limit:
  assumes "maxChars p = None \<or> (\<exists>m. maxChars p = Some m \<and> int (length newValue) \<le> m)"
  shows "handleInput rounded p newValue s =
           s\<lparr>inputValue := newValue, warningMessage := [], isSendButtonDisabled := False\<rparr>"
  using assms by (auto simp: handleInput_def)

text \<open>
  With a limit of 5, typing \<open>hello\<close> into a blocked composer holding \<open>hell\<close> unblocks it;
  with no limit, \<open>hello!\<close> is stored.
\<close>

theorem handleInput_within_limit_witness:
  "int (length ''hello'') \<le> 5 \<and>
   handleInput rounded0 (props0\<lparr>maxChars := Some 5\<rparr>) ''hello''
       (component0\<lparr>inputValue := ''hell'', warningMessage := ''w'', isSendButtonDisabled := True\<rparr>)
     = component0\<lparr>inputValue := ''hello''\<rparr> \<and>
   handleInput rounded0 props0 ''hello!'' component0 = component0\<lparr>inputValue := ''hello!''\<rparr>"
  using handleInput_within_limit [of "props0\<lparr>maxChars := Some 5\<rparr>" "''hello''" rounded0
      "component0\<lparr>inputValue := ''hell'', warningMessage := ''w'', isSendButtonDisabled := True\<rparr>"]
    handleInput_within_limit [of props0 "''hello!''" rounded0 component0]
  by (simp add: fixtures)

text \<open>
  Claim C2 as stated fails in two places. A host that passes the empty string as
  \<open>maxCharsWarningMessage\<close> gets an empty warning on an over-long input (\<open>??\<close> keeps an
  empty string); and a configured \<open>maxChars\<close> of 0 is falsy, so a one-character input,
  longer than 0, is stored, with no warning and the send action enabled.
\<close>

theorem handleInput_over_limit_counterexample:
  "maxChars (props0\<lparr>maxChars := Some 5, maxCharsWarningMessage := Some []\<rparr>) = Some 5 \<and>
   int (length ''hello!'') > 5 \<and>
   warningMessage (handleInput rounded0
      (props0\<lparr>maxChars := Some 5, maxCharsWarningMessage := Some []\<rparr>)
      ''hello!'' (component0\<lparr>inputValue := ''hello''\<rparr>)) = [] \<and>
   maxChars (props0\<lparr>maxChars := Some 0\<rparr>) = Some 0 \<and>
   int (length ''h'') > 0 \<and>
   handleInput rounded0 (props0\<lparr>maxChars := Some 0\<rparr>) ''h'' component0
     = component0\<lparr>inputValue := ''h'', warningMessage := [], isSendButtonDisabled := False\<rparr>"
  by (simp add: handleInput_def fixtures)

text \<open>
  Claim C2, amended. When the new text is strictly longer than a configured, non-zero
  \<open>maxChars\<close>, \<open>handleInput\<close> leaves the text as it was, disables the send action and
  sets the warning to the host's \<open>maxCharsWarningMessage\<close> if the host gave one, and to
  the default message templated with the text of the limit otherwise (its decimal
  digits for a safe integer); the warning is non-empty unless the host's message is the
  empty string.
\<close>

theorem handleInput_over_limit:
  assumes "maxChars p = Some m" and "m \<noteq> 0" and "int (length newValue) > m"
  shows "handleInput rounded p newValue s =
           s\<lparr>warningMessage :=
                (case maxCharsWarningMessage p of
                    None \<Rightarrow> defaultWarning rounded m
                  | Some w \<Rightarrow> w),
             isSendButtonDisabled := True\<rparr> \<and>
         inputValue (handleInput rounded p newValue s) = inputValue s \<and>
         isSendButtonDisabled (handleInput rounded p newValue s) \<and>
         (maxCharsWarningMessage p \<noteq> Some [] \<longrightarrow>
            warningMessage (handleInput rounded p newValue s) \<noteq> [])"
  using assms by (auto simp: handleInput_def defaultWarning_nonempty split: option.splits)

text \<open>
  The example of the specification: limit 5, \<open>hello!\<close> typed after \<open>hello\<close>; the same
  with a message of the host; and a limit of \<open>-1\<close>, which every input exceeds.
\<close>

theorem handleInput_over_limit_witness:
  "int (length ''hello!'') > 5 \<and>
   handleInput rounded0 (props0\<lparr>maxChars := Some 5\<rparr>) ''hello!''
       (component0\<lparr>inputValue := ''hello''\<rparr>)
     = component0\<lparr>inputValue := ''hello'',
         warningMessage :=
           ''You exceeded the characters limit. Please input less than 5 characters.'',
         isSendButtonDisabled := True\<rparr> \<and>
   warningMessage (handleInput rounded0
      (props0\<lparr>maxChars := Some 5, maxCharsWarningMessage := Some ''Too long''\<rparr>)
      ''hello!'' (component0\<lparr>inputValue := ''hello''\<rparr>)) = ''Too long'' \<and>
   handleInput rounded0 (props0\<lparr>maxChars := Some (- 1)\<rparr>) [] component0
     = component0\<lparr>warningMessage :=
           ''You exceeded the characters limit. Please input less than -1 characters.'',
         isSendButtonDisabled := True\<rparr>"
  using handleInput_over_limit [of "props0\<lparr>maxChars := Some 5\<rparr>" 5 "''hello!''"
      rounded0 "component0\<lparr>inputValue := ''hello''\<rparr>"]
    handleInput_over_limit [of "props0\<lparr>maxChars := Some 5, maxCharsWarningMessage := Some ''Too long''\<rparr>"
      5 "''hello!''" rounded0 "component0\<lparr>inputValue := ''hello''\<rparr>"]
    handleInput_over_limit [of "props0\<lparr>maxChars := Some (- 1)\<rparr>" "- 1" "[]" rounded0 component0]
  by (simp add: fixtures defaultWarning_5 defaultWarning_minus_1)

text \<open>
  Claim C9. With \<open>maxChars\<close> configured as 0 the limit is not enforced: whatever the
  length of the new text, \<open>handleInput\<close> stores it, leaves the warning empty and the
  send action enabled, exactly as it does with \<open>maxChars\<close> unset.
\<close>

theorem handleInput_maxChars_zero:
  "handleInput rounded (p\<lparr>maxChars := Some 0\<rparr>) newValue s =
     s\<lparr>inputValue := newValue, warningMessage := [], isSendButtonDisabled := False\<rparr> \<and>
   handleInput rounded (p\<lparr>maxChars := Some 0\<rparr>) newValue s =
     handleInput rounded (p\<lparr>maxChars := None\<rparr>) newValue s"
  by (simp add: handleInput_def)

subsection \<open>Submission\<close>

text \<open>
  Claim C3. When \<open>submit\<close> runs while the text is empty, or a warning is set, or the
  field reports itself invalid (or no field is bound), \<open>onSubmit\<close> is not called and the
  component is left as it was.
\<close>

theorem submit_rejected:
  assumes "inputValue s = [] \<or> warningMessage s \<noteq> [] \<or> inputRef s = None
             \<or> (\<exists>el. inputRef s = Some el \<and> \<not> reportValidity el)"
  shows "fst (submit p s) = s \<and> filter is_OnSubmit (snd (submit p s)) = []"
proof -
  obtain b es where c: "checkIfInputIsValid s = (b, es)"
    by (cases "checkIfInputIsValid s")
  from checkIfInputIsValid_False [OF assms] c have "b = False" and "filter is_OnSubmit es = []"
    by simp_all
  with c show ?thesis
    by (simp add: submit_def)
qed

text \<open>Empty text; a warning; a field that reports itself invalid.\<close>

theorem submit_rejected_witness:
  "submit props0 component0 = (component0, []) \<and>
   submit props0 (component0\<lparr>inputValue := ''hi'', warningMessage := ''too long''\<rparr>)
     = (component0\<lparr>inputValue := ''hi'', warningMessage := ''too long''\<rparr>, []) \<and>
   submit props0
      (component0\<lparr>inputValue := ''hi'', inputRef := Some (field0\<lparr>reportValidity := False\<rparr>)\<rparr>)
     = (component0\<lparr>inputValue := ''hi'', inputRef := Some (field0\<lparr>reportValidity := False\<rparr>)\<rparr>,
        [CallReportValidity])"
  using submit_rejected [of component0 props0]
    submit_rejected [of "component0\<lparr>inputValue := ''hi'', warningMessage := ''too long''\<rparr>" props0]
    submit_rejected [of "component0\<lparr>inputValue := ''hi'',
        inputRef := Some (field0\<lparr>reportValidity := False\<rparr>)\<rparr>" props0]
  by (simp add: fixtures submit_def checkIfInputIsValid_def)

text \<open>
  Claim C4. When \<open>submit\<close> runs while the text is not empty, no warning is set and the
  field reports itself valid, \<open>onSubmit\<close> is called exactly once, with the current text
  as it is, and afterwards the text is empty.
\<close>

theorem submit_accepted:
  assumes "inputValue s \<noteq> []" and "warningMessage s = []"
    and "inputRef s = Some el" and "reportValidity el"
  shows "filter is_OnSubmit (snd (submit p s)) = [OnSubmit (inputValue s)] \<and>
         inputValue (fst (submit p s)) = []"
  by (simp add: submit_valid [OF assms] sound_no_OnSubmit)

text \<open>The text keeps its blanks; with the sound enabled and loaded, it is played after.\<close>

theorem submit_accepted_witness:
  "submit (props0\<lparr>sendMessageSound := Some True\<rparr>)
          (component0\<lparr>inputValue := '' hi '', audioRef := Some ''a.mp3''\<rparr>)
     = (component0\<lparr>inputValue := [], audioRef := Some ''a.mp3''\<rparr>,
        [CallReportValidity, OnSubmit '' hi '', Play ''a.mp3''])"
  using submit_accepted [of "component0\<lparr>inputValue := '' hi '', audioRef := Some ''a.mp3''\<rparr>"
      field0 "props0\<lparr>sendMessageSound := Some True\<rparr>"]
  by (simp add: fixtures submit_def checkIfInputIsValid_def)

subsection \<open>Keyboard\<close>

text \<open>
  Claim C5. A keyboard event with an IME composition in progress (its composing flag
  set, or its key code 229) never triggers \<open>submit\<close>, whatever its key: \<open>onSubmit\<close> is
  not called and the component is left as it was.
\<close>

theorem submitWhenEnter_composing:
  assumes "isComposing e \<or> keyCode e = 229"
  shows "submitWhenEnter p e s = (s, [])"
  using assms by (auto simp: submitWhenEnter_def)

text \<open>Enter with key code 229, Enter while composing, and a plain Enter for contrast.\<close>

theorem submitWhenEnter_composing_witness:
  "submitWhenEnter props0 \<lparr> key = ''Enter'', isComposing = False, keyCode = 229 \<rparr>
       (component0\<lparr>inputValue := ''hi''\<rparr>) = (component0\<lparr>inputValue := ''hi''\<rparr>, []) \<and>
   submitWhenEnter props0 \<lparr> key = ''Enter'', isComposing = True, keyCode = 13 \<rparr>
       (component0\<lparr>inputValue := ''hi''\<rparr>) = (component0\<lparr>inputValue := ''hi''\<rparr>, []) \<and>
   snd (submitWhenEnter props0 \<lparr> key = ''Enter'', isComposing = False, keyCode = 13 \<rparr>
       (component0\<lparr>inputValue := ''hi''\<rparr>)) = [CallReportValidity, OnSubmit ''hi'']"
  using submitWhenEnter_composing [of "\<lparr> key = ''Enter'', isComposing = False, keyCode = 229 \<rparr>"
      props0 "component0\<lparr>inputValue := ''hi''\<rparr>"]
    submitWhenEnter_composing [of "\<lparr> key = ''Enter'', isComposing = True, keyCode = 13 \<rparr>"
      props0 "component0\<lparr>inputValue := ''hi''\<rparr>"]
  by (simp add: fixtures submitWhenEnter_def submit_def checkIfInputIsValid_def)

text \<open>
  Claim C6 as stated, for every cursor position, fails when the field's cursor is
  beyond the end of the text state: with the text \<open>ab\<close> and the cursor at 5, Backspace
  removes no character.
\<close>

theorem handleKeyPress_Backspace_counterexample:
  "key backspace = ''Backspace'' \<and>
   selectionStart \<lparr> selectionStart = Some 5, reportValidity = True \<rparr> = Some 5 \<and>
   (0::nat) < 5 \<and>
   inputValue (fst (handleKeyPress backspace
      \<lparr> inputValue = ''ab'', isSendButtonDisabled = False, warningMessage = [],
        inputRef = Some \<lparr> selectionStart = Some 5, reportValidity = True \<rparr>,
        audioRef = None \<rparr>)) = ''ab''"
  by (simp add: handleKeyPress_def deleteCharacter_def backspace_def)

text \<open>
  Claim C6, amended. For a Backspace key event with the field's cursor at \<open>p\<close>: when
  \<open>0 < p\<close> and \<open>p\<close> is at most the length of the text, the new text is the old one with
  exactly the character at index \<open>p - 1\<close> removed, and the cursor is set to \<open>p - 1\<close>;
  when \<open>p\<close> is beyond the end of the text, the text is unchanged and the cursor is set
  to \<open>p - 1\<close>; when \<open>p = 0\<close>, neither the text nor the cursor changes.
\<close>

theorem handleKeyPress_Backspace:
  assumes "key e = ''Backspace''" and "inputRef s = Some el" and "selectionStart el = Some p"
  shows "(0 < p \<and> p \<le> length (inputValue s) \<longrightarrow>
            (\<exists>xs c ys. inputValue s = xs @ c # ys \<and> length xs = p - 1 \<and>
               handleKeyPress e s =
                 (s\<lparr>inputValue := xs @ ys\<rparr>, [SetSelectionRange (p - 1) (p - 1)]))) \<and>
         (length (inputValue s) < p \<longrightarrow>
            handleKeyPress e s = (s, [SetSelectionRange (p - 1) (p - 1)])) \<and>
         (p = 0 \<longrightarrow> handleKeyPress e s = (s, []))"
proof (intro conjI impI)
  assume r: "0 < p \<and> p \<le> length (inputValue s)"
  let ?t = "inputValue s"
  from r have "p - 1 < length ?t" by auto
  then have "?t = take (p - 1) ?t @ ?t ! (p - 1) # drop (Suc (p - 1)) ?t"
    by (rule id_take_nth_drop)
  with r have d: "?t = take (p - 1) ?t @ ?t ! (p - 1) # drop p ?t"
    by simp
  from r have l: "length (take (p - 1) ?t) = p - 1"
    by auto
  from assms r have h: "handleKeyPress e s =
      (s\<lparr>inputValue := take (p - 1) ?t @ drop p ?t\<rparr>, [SetSelectionRange (p - 1) (p - 1)])"
    by (simp add: handleKeyPress_def deleteCharacter_def Let_def)
  from d l h show "\<exists>xs c ys. ?t = xs @ c # ys \<and> length xs = p - 1 \<and>
      handleKeyPress e s = (s\<lparr>inputValue := xs @ ys\<rparr>, [SetSelectionRange (p - 1) (p - 1)])"
    by blast
next
  assume "length (inputValue s) < p"
  with assms show "handleKeyPress e s = (s, [SetSelectionRange (p - 1) (p - 1)])"
    by (simp add: handleKeyPress_def deleteCharacter_def Let_def)
next
  assume "p = 0"
  with assms show "handleKeyPress e s = (s, [])"
    by (simp add: handleKeyPress_def deleteCharacter_def Let_def)
qed

text \<open>In \<open>abc\<close>: the cursor after \<open>b\<close>, at the start, and beyond the end.\<close>

theorem handleKeyPress_Backspace_witness:
  "handleKeyPress backspace
      (component0\<lparr>inputValue := ''abc'', inputRef := Some (field0\<lparr>selectionStart := Some 2\<rparr>)\<rparr>)
     = (component0\<lparr>inputValue := ''ac'', inputRef := Some (field0\<lparr>selectionStart := Some 2\<rparr>)\<rparr>,
        [SetSelectionRange 1 1]) \<and>
   handleKeyPress backspace (component0\<lparr>inputValue := ''abc''\<rparr>)
     = (component0\<lparr>inputValue := ''abc''\<rparr>, []) \<and>
   handleKeyPress backspace
      (component0\<lparr>inputValue := ''abc'', inputRef := Some (field0\<lparr>selectionStart := Some 7\<rparr>)\<rparr>)
     = (component0\<lparr>inputValue := ''abc'', inputRef := Some (field0\<lparr>selectionStart := Some 7\<rparr>)\<rparr>,
        [SetSelectionRange 6 6])"
  using handleKeyPress_Backspace [of backspace
      "component0\<lparr>inputValue := ''abc'', inputRef := Some (field0\<lparr>selectionStart := Some 2\<rparr>)\<rparr>"
      "field0\<lparr>selectionStart := Some 2\<rparr>" 2]
    handleKeyPress_Backspace [of backspace "component0\<lparr>inputValue := ''abc''\<rparr>" field0 0]
    handleKeyPress_Backspace [of backspace
      "component0\<lparr>inputValue := ''abc'', inputRef := Some (field0\<lparr>selectionStart := Some 7\<rparr>)\<rparr>"
      "field0\<lparr>selectionStart := Some 7\<rparr>" 7]
  by (simp add: fixtures handleKeyPress_def deleteCharacter_def)

subsection \<open>Mounting\<close>

text \<open>
  Claim C7. On mount, with the text field bound, the field receives focus if and only if
  the widget is not disabled and either the host set \<open>autoFocus\<close> to true, or
  \<open>autoFocus\<close> is unset, the device is not mobile-class and the viewport is strictly
  wider than 640 pixels.
\<close>

theorem onMount_focus:
  assumes "inputRef s = Some el"
  shows "Focus \<in> set (snd (onMount w p s)) \<longleftrightarrow>
           disabled p \<noteq> Some True \<and>
           (autoFocus p = Some True \<or> (autoFocus p = None \<and> \<not> isMobile w \<and> innerWidth w > 640))"
  using assms by (auto simp: onMount_def split: option.splits)

text \<open>
  A desktop page; a page exactly 640 wide; a mobile device; a mobile device with
  \<open>autoFocus\<close> set; \<open>autoFocus\<close> set to false; a disabled widget.
\<close>

theorem onMount_focus_witness:
  "Focus \<in> set (snd (onMount window0 props0 component0)) \<and>
   Focus \<notin> set (snd (onMount (window0\<lparr>innerWidth := 640\<rparr>) props0 component0)) \<and>
   Focus \<notin> set (snd (onMount (window0\<lparr>isMobile := True\<rparr>) props0 component0)) \<and>
   Focus \<in> set (snd (onMount (window0\<lparr>isMobile := True\<rparr>) (props0\<lparr>autoFocus := Some True\<rparr>)
                          component0)) \<and>
   Focus \<notin> set (snd (onMount window0 (props0\<lparr>autoFocus := Some False\<rparr>) component0)) \<and>
   Focus \<notin> set (snd (onMount window0 (props0\<lparr>autoFocus := Some True, disabled := Some True\<rparr>)
                          component0))"
  using onMount_focus [of component0 field0 window0 props0]
    onMount_focus [of component0 field0 "window0\<lparr>innerWidth := 640\<rparr>" props0]
    onMount_focus [of component0 field0 "window0\<lparr>isMobile := True\<rparr>" props0]
    onMount_focus [of component0 field0 "window0\<lparr>isMobile := True\<rparr>" "props0\<lparr>autoFocus := Some True\<rparr>"]
    onMount_focus [of component0 field0 window0 "props0\<lparr>autoFocus := Some False\<rparr>"]
    onMount_focus [of component0 field0 window0 "props0\<lparr>autoFocus := Some True, disabled := Some True\<rparr>"]
  by (simp add: fixtures)

text \<open>
  Claim C10. The component starts with the host's \<open>defaultValue\<close> as its text (the empty
  string when there is none), no warning and the send action enabled, whatever
  \<open>maxChars\<close> is; and once mounted with a valid field, \<open>submit\<close> passes a non-empty
  default text to \<open>onSubmit\<close>, also when it is longer than \<open>maxChars\<close>.
\<close>

theorem TextInput_initial_state:
  "inputValue (TextInput p) = (case defaultValue p of None \<Rightarrow> [] | Some d \<Rightarrow> d) \<and>
   warningMessage (TextInput p) = [] \<and>
   \<not> isSendButtonDisabled (TextInput p) \<and>
   (inputValue (TextInput p) \<noteq> [] \<and> reportValidity el \<longrightarrow>
      filter is_OnSubmit (snd (submit p (fst (onMount w p (setInputRef el (TextInput p))))))
        = [OnSubmit (inputValue (TextInput p))])"
proof -
  let ?s = "fst (onMount w p (setInputRef el (TextInput p)))"
  have i: "inputValue ?s = inputValue (TextInput p)" and m: "warningMessage ?s = []"
    and r: "inputRef ?s = Some el"
    by (simp_all add: onMount_fields setInputRef_def TextInput_def)
  have "filter is_OnSubmit (snd (submit p ?s)) = [OnSubmit (inputValue (TextInput p))]"
    if "inputValue (TextInput p) \<noteq> []" and "reportValidity el"
  proof -
    from that i have "inputValue ?s \<noteq> []" by simp
    from submit_valid [OF this m r that(2), of p] i show ?thesis
      by (simp add: sound_no_OnSubmit)
  qed
  then show ?thesis
    by (simp add: TextInput_def)
qed

text \<open>A default text of five characters under a limit of three.\<close>

theorem TextInput_initial_state_witness:
  "int (length ''hello'') > 3 \<and>
   TextInput (props0\<lparr>defaultValue := Some ''hello'', maxChars := Some 3\<rparr>)
     = \<lparr> inputValue = ''hello'', isSendButtonDisabled = False, warningMessage = [],
         inputRef = None, audioRef = None \<rparr> \<and>
   snd (submit (props0\<lparr>defaultValue := Some ''hello'', maxChars := Some 3\<rparr>)
     (fst (onMount window0 (props0\<lparr>defaultValue := Some ''hello'', maxChars := Some 3\<rparr>)
        (setInputRef field0 (TextInput (props0\<lparr>defaultValue := Some ''hello'', maxChars := Some 3\<rparr>))))))
     = [CallReportValidity, OnSubmit ''hello'']"
  using TextInput_initial_state [of "props0\<lparr>defaultValue := Some ''hello'', maxChars := Some 3\<rparr>"
      field0 window0]
  by (simp add: fixtures onMount_def submit_def checkIfInputIsValid_def)

subsection \<open>File selection\<close>

text \<open>
  Claim C8. On a file-selection event the component calls the host's
  \<open>handleFileChange\<close> with the event as it arrived, and afterwards the value of the
  native file input that is the event's target is the empty string.
\<close>

theorem handleFileChange_forward_reset:
  "snd (handleFileChange event) = [HostHandleFileChange event] \<and>
   fst (handleFileChange event) =
     event\<lparr>target := map_option (\<lambda>t. t\<lparr>target_value := []\<rparr>) (target event)\<rparr>"
  by (simp add: handleFileChange_def split: option.split)

text \<open>The host sees the selected path; the input is empty afterwards.\<close>

theorem handleFileChange_forward_reset_witness:
  "handleFileChange \<lparr> target = Some \<lparr> target_value = ''C:/fakepath/cat.png'' \<rparr> \<rparr> =
     (\<lparr> target = Some \<lparr> target_value = [] \<rparr> \<rparr>,
      [HostHandleFileChange \<lparr> target = Some \<lparr> target_value = ''C:/fakepath/cat.png'' \<rparr> \<rparr>])"
  using handleFileChange_forward_reset
    [of "\<lparr> target = Some \<lparr> target_value = ''C:/fakepath/cat.png'' \<rparr> \<rparr>"]
  by (simp add: prod_eq_iff)

end
